theory Spec2Isabelle
  imports Main
begin

section \<open>The rendering framework of bitproto\<close>

text \<open>
  Two generations of the framework are embedded side by side:
  \<^item> \<^verbatim>\<open>src/bitproto/renderer.py\<close> (module docstring \<^verbatim>\<open>bitproto.renderer_base\<close>): the registry,
    \<^verbatim>\<open>render\<close>, the first \<^verbatim>\<open>Formatter\<close>, \<^verbatim>\<open>Block\<close> and \<^verbatim>\<open>Renderer\<close>;
  \<^item> \<^verbatim>\<open>src/compiler/bitproto/renderer/formatter.py\<close>: \<^verbatim>\<open>CaseStyle\<close> and the later \<^verbatim>\<open>Formatter\<close>.
  Both files define a class \<^verbatim>\<open>Formatter\<close>; where a name of \<^verbatim>\<open>renderer.py\<close> is also a name of
  \<^verbatim>\<open>formatter.py\<close>, the one of \<^verbatim>\<open>renderer.py\<close> carries the suffix \<open>_base\<close>.
\<close>

subsection \<open>Exceptions\<close>

text \<open>
  Every exception the two files raise. \<open>InternalError\<close> carries the constant part of its
  message. \<open>AssertionError\<close> is the failed \<^verbatim>\<open>assert\<close> of \<^verbatim>\<open>Block.formatter\<close>,
  \<open>IndexError\<close> the failed \<^verbatim>\<open>self.strings[-1]\<close> of \<^verbatim>\<open>Block.push_string\<close>, and \<open>TypeError\<close>
  what \<^verbatim>\<open>mapping.get\<close> of \<^verbatim>\<open>CaseStyle.from_name\<close> raises on an unhashable key.
\<close>

datatype error =
    InternalError string
  | NotImplementedError
  | UnsupportedLanguageToRender
  | AssertionError
  | IndexError
  | TypeError

subsection \<open>The definition tree (\<^verbatim>\<open>bitproto._ast\<close>, consumed and not owned)\<close>

text \<open>The classes both files import from \<^verbatim>\<open>bitproto._ast\<close>.\<close>

datatype ast_class =
    Node | Definition | Type | SingleType | Integer
  | Bool | Byte | Uint | Int' | Array
  | Scope | BoundScope | Proto | Message | Enum | Alias
  | Constant | BooleanConstant | IntegerConstant | StringConstant
  | EnumField | MessageField

text \<open>
  Modelled from the spec: the direct base classes of \<^verbatim>\<open>bitproto._ast\<close>, which is not part of the
  sources at hand. Section 3 and the glossary of the specification give: a Definition is a Node;
  a Scope is a Definition; Proto, Message and the generic BoundScope are Scopes; a Message and an
  Enum are bound scopes owned by a Definition (the flattening of \<open>Outer_Inner_field\<close> walks them);
  the Type variants are Bool, Byte, Uint, Int, Array, Enum, Message, Alias, the integer ones
  carrying a byte count; the Constant variants are boolean, string and integer; EnumField and
  MessageField are Definitions.
\<close>

fun bases :: "ast_class \<Rightarrow> ast_class list" where
  "bases Node = []"
| "bases Definition = [Node]"
| "bases Type = [Node]"
| "bases SingleType = [Type]"
| "bases Integer = [SingleType]"
| "bases Bool = [SingleType]"
| "bases Byte = [SingleType]"
| "bases Uint = [Integer]"
| "bases Int' = [Integer]"
| "bases Array = [Type]"
| "bases Scope = [Definition]"
| "bases BoundScope = [Scope]"
| "bases Proto = [Scope]"
| "bases Message = [Type, BoundScope]"
| "bases Enum = [Type, BoundScope]"
| "bases Alias = [Type, Definition]"
| "bases Constant = [Definition]"
| "bases BooleanConstant = [Constant]"
| "bases IntegerConstant = [Constant]"
| "bases StringConstant = [Constant]"
| "bases EnumField = [Definition]"
| "bases MessageField = [Definition]"

text \<open>
  \<^verbatim>\<open>issubclass\<close>: the class itself or a base reached in at most \<open>n\<close> steps; the hierarchy above
  is five levels deep.
\<close>

fun subclass_upto :: "nat \<Rightarrow> ast_class \<Rightarrow> ast_class \<Rightarrow> bool" where
  "subclass_upto 0 c k = (c = k)"
| "subclass_upto (Suc n) c k = (c = k \<or> list_ex (\<lambda>b. subclass_upto n b k) (bases c))"

definition issubclass :: "ast_class \<Rightarrow> ast_class \<Rightarrow> bool" where
  "issubclass c k = subclass_upto 5 c k"

text \<open>
  A Definition object: its class, its name, its identity (Python compares members with
  \<^verbatim>\<open>is\<close>), the chain of enclosing scopes from the root to the immediate parent, and, when it is
  a Scope, its members as pairs of member name and member identity in insertion order.
\<close>

datatype defn =
  Def (class_of: ast_class) (name: string) (oid: nat)
      (scope_stack: "defn list") (members: "(string \<times> nat) list")

text \<open>\<^verbatim>\<open>isinstance(x, cls)\<close> and \<^verbatim>\<open>isinstance(x, (cls1, cls2, ...))\<close>.\<close>

definition isinstance :: "defn \<Rightarrow> ast_class \<Rightarrow> bool" where
  "isinstance x k = issubclass (class_of x) k"

definition isinstance_any :: "defn \<Rightarrow> ast_class list \<Rightarrow> bool" where
  "isinstance_any x ks = list_ex (isinstance x) ks"

text \<open>
  Modelled from the spec: \<^verbatim>\<open>Scope.get_name_by_member\<close> of \<^verbatim>\<open>bitproto._ast\<close>, which is not part of
  the sources at hand. Section 4.2 step 1: the name under which the enclosing Scope records the
  definition as a member, if it records it at all.
\<close>

fun get_name_by_member :: "defn \<Rightarrow> defn \<Rightarrow> string option" where
  "get_name_by_member scope d =
     (case filter (\<lambda>(n, i). i = oid d) (members scope) of
        [] \<Rightarrow> None
      | (n, i) # _ \<Rightarrow> Some n)"

text \<open>Python's \<^verbatim>\<open>x or y\<close> on an optional string: \<^verbatim>\<open>None\<close> and the empty string are falsy.\<close>

fun or_else :: "string option \<Rightarrow> string \<Rightarrow> string" where
  "or_else None y = y"
| "or_else (Some x) y = (if x = [] then y else x)"

text \<open>Python's \<^verbatim>\<open>sep.join(items)\<close>.\<close>

fun str_join :: "string \<Rightarrow> string list \<Rightarrow> string" where
  "str_join sep [] = []"
| "str_join sep [x] = x"
| "str_join sep (x # y # ys) = x @ sep @ str_join sep (y # ys)"

text \<open>
  An integer type, as far as the formatters look at it: the value of \<^verbatim>\<open>t.nbytes()\<close>, a Python
  integer.
\<close>

record integer_type =
  nbytes :: int

subsection \<open>\<^verbatim>\<open>CaseStyle\<close> (formatter.py)\<close>

datatype case_style = KEEP | SNAKE | UPPER | PASCAL

text \<open>
  The converters \<^verbatim>\<open>snake_case\<close>, \<^verbatim>\<open>upper_case\<close> and \<^verbatim>\<open>pascal_case\<close> of \<^verbatim>\<open>bitproto.utils\<close> are not
  part of the sources at hand and the specification does not define them: they are parameters.
\<close>

record case_utils =
  snake_case :: "string \<Rightarrow> string"
  upper_case :: "string \<Rightarrow> string"
  pascal_case :: "string \<Rightarrow> string"

text \<open>
  Modelled from the spec: \<^verbatim>\<open>keep_case\<close> of \<^verbatim>\<open>bitproto.utils\<close>, which is not part of the sources
  at hand. Section 4.3: the default style \<^verbatim>\<open>"keep"\<close> is the identity.
\<close>

definition keep_case :: "string \<Rightarrow> string" where
  "keep_case s = s"

fun converter :: "case_utils \<Rightarrow> case_style \<Rightarrow> (string \<Rightarrow> string)" where
  "converter u SNAKE = snake_case u"
| "converter u UPPER = upper_case u"
| "converter u PASCAL = pascal_case u"
| "converter u KEEP = keep_case"

definition from_name :: "string \<Rightarrow> case_style" where
  "from_name nm =
     (case map_of [(''snake'', SNAKE), (''upper'', UPPER), (''pascal'', PASCAL)] nm of
        None \<Rightarrow> KEEP
      | Some c \<Rightarrow> c)"

text \<open>
  An element of a tuple of the case-style table. The source casts the tuple to
  \<^verbatim>\<open>Tuple[str, ...]\<close> and tests no element, so an element is any object: a \<^verbatim>\<open>str\<close>, an \<^verbatim>\<open>int\<close>
  or a function (both hashable, and equal to no key of the mapping of \<^verbatim>\<open>from_name\<close>), or an
  unhashable object such as a list.
\<close>

datatype style_key =
    KStr string
  | KInt int
  | KCallable "string \<Rightarrow> string"
  | KUnhashable

text \<open>
  \<^verbatim>\<open>CaseStyle.from_name\<close> on such an element: \<^verbatim>\<open>mapping.get(name, cls.KEEP)\<close> finds a key only
  for a \<^verbatim>\<open>str\<close>, returns the default for any other hashable object and raises \<^verbatim>\<open>TypeError\<close>
  on an unhashable one.
\<close>

fun from_name_key :: "style_key \<Rightarrow> error + case_style" where
  "from_name_key (KStr nm) = Inr (from_name nm)"
| "from_name_key (KInt i) = Inr KEEP"
| "from_name_key (KCallable c) = Inr KEEP"
| "from_name_key KUnhashable = Inl TypeError"

text \<open>
  A value of the case-style table, by the three tests \<^verbatim>\<open>format_case_style\<close> makes on it:
  a \<^verbatim>\<open>str\<close>, a \<^verbatim>\<open>tuple\<close> of whatever elements, a callable, or any other object.
\<close>

datatype case_style_entry =
    EStr string
  | ETuple "style_key list"
  | ECallable "string \<Rightarrow> string"
  | EOther

text \<open>
  What the specification calls a style name, a tuple of style names: a \<^verbatim>\<open>str\<close> element, a
  tuple all of whose elements are \<^verbatim>\<open>str\<close>. \<open>key_is_style\<close>: the element is one of the three
  keys of the mapping of \<^verbatim>\<open>from_name\<close>. \<open>style_of_key\<close>: the style of a hashable element.
\<close>

fun key_is_str :: "style_key \<Rightarrow> bool" where
  "key_is_str (KStr nm) = True"
| "key_is_str k = False"

fun key_hashable :: "style_key \<Rightarrow> bool" where
  "key_hashable KUnhashable = False"
| "key_hashable k = True"

fun key_is_style :: "style_key \<Rightarrow> bool" where
  "key_is_style (KStr nm) = (nm = ''snake'' \<or> nm = ''upper'' \<or> nm = ''pascal'')"
| "key_is_style k = False"

fun style_of_key :: "style_key \<Rightarrow> case_style" where
  "style_of_key (KStr nm) = from_name nm"
| "style_of_key k = KEEP"

fun entry_is_tuple_of_str :: "case_style_entry \<Rightarrow> bool" where
  "entry_is_tuple_of_str (ETuple ks) = list_all key_is_str ks"
| "entry_is_tuple_of_str e = False"

fun entry_is_str :: "case_style_entry \<Rightarrow> bool" where
  "entry_is_str (EStr x) = True"
| "entry_is_str e = False"

fun entry_is_tuple :: "case_style_entry \<Rightarrow> bool" where
  "entry_is_tuple (ETuple xs) = True"
| "entry_is_tuple e = False"

fun entry_is_callable :: "case_style_entry \<Rightarrow> bool" where
  "entry_is_callable (ECallable c) = True"
| "entry_is_callable e = False"

text \<open>Converters applied one by one, the first of the list first.\<close>

fun apply_in_order :: "(string \<Rightarrow> string) list \<Rightarrow> string \<Rightarrow> string" where
  "apply_in_order [] s = s"
| "apply_in_order (c # cs) s = apply_in_order cs (c s)"

subsection \<open>\<^verbatim>\<open>Formatter\<close> (formatter.py)\<close>

text \<open>The argument of \<^verbatim>\<open>format_type\<close>: the eight classes it tests, and any other Type object.\<close>

datatype bp_type =
    TBool
  | TByte
  | TUint integer_type
  | TInt integer_type
  | TArray bp_type nat
  | TEnum defn
  | TMessage defn
  | TAlias defn
  | TOther

text \<open>
  The argument of \<^verbatim>\<open>format_value\<close> and \<^verbatim>\<open>format_literal\<close>: a Python \<^verbatim>\<open>bool\<close>, \<^verbatim>\<open>str\<close> or
  \<^verbatim>\<open>int\<close>, or any other object. In Python \<^verbatim>\<open>bool\<close> is a subclass of \<^verbatim>\<open>int\<close>.
\<close>

datatype py_value = PyBool bool | PyStr string | PyInt int | PyOther

fun is_True_or_False :: "py_value \<Rightarrow> bool" where
  "is_True_or_False (PyBool b) = True"
| "is_True_or_False v = False"

fun isinstance_str :: "py_value \<Rightarrow> bool" where
  "isinstance_str (PyStr s) = True"
| "isinstance_str v = False"

fun isinstance_int :: "py_value \<Rightarrow> bool" where
  "isinstance_int (PyBool b) = True"
| "isinstance_int (PyInt i) = True"
| "isinstance_int v = False"

text \<open>A \<^verbatim>\<open>bool\<close> read as the \<^verbatim>\<open>int\<close> it is, and the payloads handed to the hooks.\<close>

fun as_bool :: "py_value \<Rightarrow> bool" where
  "as_bool (PyBool b) = b"
| "as_bool v = False"

fun as_str :: "py_value \<Rightarrow> string" where
  "as_str (PyStr s) = s"
| "as_str v = []"

fun as_int :: "py_value \<Rightarrow> int" where
  "as_int (PyInt i) = i"
| "as_int (PyBool b) = (if b then 1 else 0)"
| "as_int v = 0"

text \<open>
  A concrete Formatter: what each abstract or overridable method of the class returns. The
  three \<^verbatim>\<open>format_*_value_type\<close> methods raise \<^verbatim>\<open>NotImplementedError\<close> unless overridden, so
  they return a result. \<open>format_message_name\<close>, \<open>format_alias_name\<close> and the default bodies of
  \<open>format_enum_type\<close>, \<open>format_message_type\<close>, \<open>format_alias_type\<close> are defined below, after
  \<open>format_definition_name\<close>.
\<close>

record formatter =
  case_style_mapping :: "ast_class \<rightharpoonup> case_style_entry"
  indent_character :: string
  support_import_as_member :: bool
  format_bool_value :: "bool \<Rightarrow> string"
  format_str_value :: "string \<Rightarrow> string"
  format_int_value :: "int \<Rightarrow> string"
  format_bool_type :: string
  format_byte_type :: string
  format_uint_type :: "integer_type \<Rightarrow> string"
  format_int_type :: "integer_type \<Rightarrow> string"
  format_array_type :: "bp_type \<Rightarrow> nat \<Rightarrow> string option \<Rightarrow> string"
  format_int_value_type :: "error + string"
  format_string_value_type :: "error + string"
  format_bool_value_type :: "error + string"
  format_enum_type :: "defn \<Rightarrow> error + string"
  format_message_type :: "defn \<Rightarrow> error + string"
  format_alias_type :: "defn \<Rightarrow> error + string"
  delimer_cross_proto :: string
  delimer_inner_proto :: string
  scopes_with_namespace :: "ast_class list"

text \<open>The bodies of the overridable methods that have one.\<close>

definition delimer_cross_proto_default :: string where
  "delimer_cross_proto_default = ''.''"

definition delimer_inner_proto_default :: string where
  "delimer_inner_proto_default = ''_''"

definition scopes_with_namespace_default :: "ast_class list" where
  "scopes_with_namespace_default = [Message, Proto]"

text \<open>
  \<^verbatim>\<open>format_value\<close>: an \<^verbatim>\<open>if\<close>/\<^verbatim>\<open>elif\<close> chain with no \<^verbatim>\<open>else\<close>; falling off its end returns
  Python's \<^verbatim>\<open>None\<close>, here \<open>None\<close>.
\<close>

definition format_value :: "formatter \<Rightarrow> py_value \<Rightarrow> string option" where
  "format_value f v =
     (if is_True_or_False v then Some (format_bool_value f (as_bool v))
      else if isinstance_str v then Some (format_str_value f (as_str v))
      else if isinstance_int v then Some (format_int_value f (as_int v))
      else None)"

text \<open>
  A leading underscore of a method name is written \<open>p_\<close>: \<^verbatim>\<open>_get_definition_name\<close> is
  \<open>p_get_definition_name\<close>.
\<close>

definition get_nbits_of_integer :: "integer_type \<Rightarrow> int" where
  "get_nbits_of_integer t =
     (let n = nbytes t in
      if n = 1 then 8
      else if n = 2 then 16
      else if n \<in> set [3, 4] then 32
      else if n \<in> set [5, 6, 7, 8] then 64
      else n * 8)"

definition p_get_definition_name :: "defn \<Rightarrow> string" where
  "p_get_definition_name d =
     (if length (scope_stack d) \<le> 0 then name d
      else let scope = last (scope_stack d) in
           or_else (get_name_by_member scope d) (name d))"

text \<open>
  The loop of \<^verbatim>\<open>_format_definition_name_inner_proto\<close> over \<^verbatim>\<open>namespaces[::-1]\<close>: a BoundScope
  is inserted at the front of \<open>items\<close>, a Proto (that is not a BoundScope) ends the loop, any
  other scope is skipped.
\<close>

fun collect_items :: "defn list \<Rightarrow> string list \<Rightarrow> string list" where
  "collect_items [] items = items"
| "collect_items (namespace # rest) items =
     (if isinstance namespace BoundScope
        then collect_items rest (p_get_definition_name namespace # items)
      else if isinstance namespace Proto then items
      else collect_items rest items)"

definition p_format_definition_name_inner_proto :: "formatter \<Rightarrow> defn \<Rightarrow> string" where
  "p_format_definition_name_inner_proto f d =
     (let definition_name = p_get_definition_name d;
          classes = scopes_with_namespace f;
          namespaces = filter (\<lambda>scope. isinstance_any scope classes) (scope_stack d)
      in if length namespaces \<le> 1 then definition_name
         else str_join (delimer_inner_proto f)
                (collect_items (rev namespaces) [definition_name]))"

text \<open>
  The loop of \<^verbatim>\<open>format_case_style\<close> over the elements of a tuple: each is resolved by
  \<^verbatim>\<open>from_name\<close> and its converter applied to \<^verbatim>\<open>s\<close>; an exception leaves the method.
\<close>

fun apply_case_style_names :: "case_utils \<Rightarrow> style_key list \<Rightarrow> string \<Rightarrow> error + string" where
  "apply_case_style_names u [] s = Inr s"
| "apply_case_style_names u (case_style_name # rest) s =
     (case from_name_key case_style_name of
        Inl e \<Rightarrow> Inl e
      | Inr case_style \<Rightarrow> apply_case_style_names u rest (converter u case_style s))"

definition format_case_style ::
  "case_utils \<Rightarrow> formatter \<Rightarrow> string \<Rightarrow> ast_class \<Rightarrow> error + string" where
  "format_case_style u f s cls =
     (let v = (case case_style_mapping f cls of None \<Rightarrow> EStr ''keep'' | Some e \<Rightarrow> e) in
      case v of
        EStr case_style_name \<Rightarrow> Inr (converter u (from_name case_style_name) s)
      | ETuple case_style_names \<Rightarrow> apply_case_style_names u case_style_names s
      | ECallable conv \<Rightarrow> Inr (conv s)
      | EOther \<Rightarrow> Inl (InternalError ''invalid case_style mapping value''))"

definition format_definition_name_inner_proto ::
  "case_utils \<Rightarrow> formatter \<Rightarrow> defn \<Rightarrow> ast_class option \<Rightarrow> error + string" where
  "format_definition_name_inner_proto u f d class_opt =
     (let cls = (case class_opt of None \<Rightarrow> class_of d | Some c \<Rightarrow> c);
          nm = p_format_definition_name_inner_proto f d
      in format_case_style u f nm cls)"

definition format_definition_name ::
  "case_utils \<Rightarrow> formatter \<Rightarrow> defn \<Rightarrow> ast_class option \<Rightarrow> error + string" where
  "format_definition_name u f d class_opt =
     (case format_definition_name_inner_proto u f d class_opt of
        Inl e \<Rightarrow> Inl e
      | Inr definition_name \<Rightarrow>
          (let protos = filter (\<lambda>scope. isinstance scope Proto) (scope_stack d) in
           if length protos \<le> 1 then Inr definition_name
           else if \<not> support_import_as_member f then Inr definition_name
           else let proto = last protos in
                Inr (str_join (delimer_cross_proto f)
                       [p_get_definition_name proto, definition_name])))"

definition format_enum_name :: "case_utils \<Rightarrow> formatter \<Rightarrow> defn \<Rightarrow> error + string" where
  "format_enum_name u f t = format_definition_name u f t (Some Enum)"

definition format_message_name :: "case_utils \<Rightarrow> formatter \<Rightarrow> defn \<Rightarrow> error + string" where
  "format_message_name u f t = format_definition_name u f t None"

definition format_alias_name :: "case_utils \<Rightarrow> formatter \<Rightarrow> defn \<Rightarrow> error + string" where
  "format_alias_name u f t = format_definition_name u f t None"

definition format_constant_name :: "case_utils \<Rightarrow> formatter \<Rightarrow> defn \<Rightarrow> error + string" where
  "format_constant_name u f v = format_definition_name u f v None"

definition format_enum_field_name :: "case_utils \<Rightarrow> formatter \<Rightarrow> defn \<Rightarrow> error + string" where
  "format_enum_field_name u f fld = format_definition_name u f fld None"

definition format_message_field_name ::
  "case_utils \<Rightarrow> formatter \<Rightarrow> defn \<Rightarrow> error + string" where
  "format_message_field_name u f fld = format_case_style u f (name fld) MessageField"

text \<open>The default bodies of the three overridable type hooks.\<close>

definition format_enum_type_default :: "case_utils \<Rightarrow> formatter \<Rightarrow> defn \<Rightarrow> error + string" where
  "format_enum_type_default u f t = format_definition_name u f t None"

definition format_message_type_default ::
  "case_utils \<Rightarrow> formatter \<Rightarrow> defn \<Rightarrow> error + string" where
  "format_message_type_default u f t = format_message_name u f t"

definition format_alias_type_default :: "case_utils \<Rightarrow> formatter \<Rightarrow> defn \<Rightarrow> error + string" where
  "format_alias_type_default u f t = format_alias_name u f t"

fun format_type :: "formatter \<Rightarrow> bp_type \<Rightarrow> string option \<Rightarrow> error + string" where
  "format_type f TBool nm = Inr (format_bool_type f)"
| "format_type f TByte nm = Inr (format_byte_type f)"
| "format_type f (TUint t) nm = Inr (format_uint_type f t)"
| "format_type f (TInt t) nm = Inr (format_int_type f t)"
| "format_type f (TArray e n) nm = Inr (format_array_type f e n nm)"
| "format_type f (TEnum t) nm = format_enum_type f t"
| "format_type f (TMessage t) nm = format_message_type f t"
| "format_type f (TAlias t) nm = format_alias_type f t"
| "format_type f TOther nm = Inl (InternalError ''unknown type for format_type'')"

definition format_constant_type :: "formatter \<Rightarrow> defn \<Rightarrow> error + string" where
  "format_constant_type f c =
     (if isinstance c BooleanConstant then format_bool_value_type f
      else if isinstance c StringConstant then format_string_value_type f
      else if isinstance c IntegerConstant then format_int_value_type f
      else Inl (InternalError ''got unexpected constant type''))"

subsection \<open>\<^verbatim>\<open>Formatter\<close> (renderer.py)\<close>

text \<open>
  A concrete Formatter of \<^verbatim>\<open>renderer.py\<close>: what each abstract method returns, and the three
  overridable type hooks.
\<close>

record formatter_base =
  ident_character :: string
  support_import :: bool
  delimer_cross_proto_base :: string
  delimer_inner_proto_base :: string
  scopes_with_namespace_base :: "ast_class list"
  format_comment :: "string \<Rightarrow> string"
  format_bool_literal :: "bool \<Rightarrow> string"
  format_str_literal :: "string \<Rightarrow> string"
  format_int_literal :: "int \<Rightarrow> string"
  format_bool_type_base :: string
  format_byte_type_base :: string
  format_uint_type_base :: "integer_type \<Rightarrow> string"
  format_int_type_base :: "integer_type \<Rightarrow> string"
  format_array_type_base :: "bp_type \<Rightarrow> nat \<Rightarrow> string"
  format_enum_type_base :: "defn \<Rightarrow> string"
  format_message_type_base :: "defn \<Rightarrow> string"
  format_alias_type_base :: "defn \<Rightarrow> string"

definition format_literal :: "formatter_base \<Rightarrow> py_value \<Rightarrow> string option" where
  "format_literal f v =
     (if is_True_or_False v then Some (format_bool_literal f (as_bool v))
      else if isinstance_str v then Some (format_str_literal f (as_str v))
      else if isinstance_int v then Some (format_int_literal f (as_int v))
      else None)"

definition nbits_from_integer_type :: "integer_type \<Rightarrow> int" where
  "nbits_from_integer_type t =
     (let n = nbytes t in
      if n = 1 then 8
      else if n = 2 then 16
      else if n \<in> set [3, 4] then 32
      else if n \<in> set [5, 6, 7, 8] then 64
      else n * 8)"

text \<open>
  \<^verbatim>\<open>Formatter.format_definition_name\<close> of \<^verbatim>\<open>renderer.py\<close>. The comprehension is embedded as it
  is written: its condition is \<^verbatim>\<open>isinstance(d, classes_)\<close>, on the definition \<^verbatim>\<open>d\<close> and not on
  the loop variable \<^verbatim>\<open>scope\<close>. The method calls itself on \<^verbatim>\<open>namespaces[-1]\<close>, an element of
  \<^verbatim>\<open>d.scope_stack\<close>.
\<close>

function format_definition_name_base :: "formatter_base \<Rightarrow> defn \<Rightarrow> string" where
  "format_definition_name_base f d =
     (if length (scope_stack d) = 0 then name d
      else let scope = last (scope_stack d);
               definition_name = or_else (get_name_by_member scope d) (name d);
               classes = scopes_with_namespace_base f;
               namespaces = filter (\<lambda>scope. isinstance_any d classes) (scope_stack d)
           in if length namespaces \<le> 1 then definition_name
              else let namespace = last namespaces in
                   if isinstance namespace Proto
                   then (if \<not> support_import f then definition_name
                         else str_join (delimer_cross_proto_base f)
                                [format_definition_name_base f namespace, definition_name])
                   else str_join (delimer_inner_proto_base f)
                          [format_definition_name_base f namespace, definition_name])"
  by pat_completeness auto

termination format_definition_name_base
proof (relation "measure (\<lambda>(f, d). size d)", goal_cases)
  have inside: "last (filter P xs) \<in> set xs" if "filter P xs \<noteq> []"
    for P :: "defn \<Rightarrow> bool" and xs
    using that by (metis filter_is_subset last_in_set subsetD)
  have smaller: "size x < size d" if "x \<in> set (scope_stack d)" for x d :: defn
    using that by (cases d) (auto simp: less_Suc_eq_le dest: size_list_estimation')
  {
    case 1
    show ?case by simp
  next
    case (2 f d scope definition_name classes namespaces namespace)
    then have "filter (\<lambda>scope. isinstance_any d classes) (scope_stack d) \<noteq> []"
      by auto
    with 2 show ?case
      by (simp add: smaller inside)
  next
    case (3 f d scope definition_name classes namespaces namespace)
    then have "filter (\<lambda>scope. isinstance_any d classes) (scope_stack d) \<noteq> []"
      by auto
    with 3 show ?case
      by (simp add: smaller inside)
  }
qed

definition format_enum_name_base :: "formatter_base \<Rightarrow> defn \<Rightarrow> string" where
  "format_enum_name_base f t = format_definition_name_base f t"

definition format_message_name_base :: "formatter_base \<Rightarrow> defn \<Rightarrow> string" where
  "format_message_name_base f t = format_definition_name_base f t"

definition format_alias_name_base :: "formatter_base \<Rightarrow> defn \<Rightarrow> string" where
  "format_alias_name_base f t = format_definition_name_base f t"

definition format_constant_name_base :: "formatter_base \<Rightarrow> defn \<Rightarrow> string" where
  "format_constant_name_base f v = format_definition_name_base f v"

definition format_enum_field_name_base :: "formatter_base \<Rightarrow> defn \<Rightarrow> string" where
  "format_enum_field_name_base f fld = format_definition_name_base f fld"

text \<open>
  \<^verbatim>\<open>Formatter.format_type\<close> of \<^verbatim>\<open>renderer.py\<close> ends in \<^verbatim>\<open>return "_unknown_type"\<close>.
\<close>

fun format_type_base :: "formatter_base \<Rightarrow> bp_type \<Rightarrow> string" where
  "format_type_base f TBool = format_bool_type_base f"
| "format_type_base f TByte = format_byte_type_base f"
| "format_type_base f (TUint t) = format_uint_type_base f t"
| "format_type_base f (TInt t) = format_int_type_base f t"
| "format_type_base f (TArray e n) = format_array_type_base f e n"
| "format_type_base f (TEnum t) = format_enum_type_base f t"
| "format_type_base f (TMessage t) = format_message_type_base f t"
| "format_type_base f (TAlias t) = format_alias_type_base f t"
| "format_type_base f TOther = ''_unknown_type''"

subsection \<open>\<^verbatim>\<open>Block\<close> (renderer.py)\<close>

text \<open>The attributes of a Block: the line buffer, the attached Formatter if any, the indent.\<close>

record block_state =
  strings :: "string list"
  formatter_opt :: "formatter_base option"
  ident :: int

definition newline :: string where
  "newline = [CHR 0x0A]"

definition formatter_of :: "block_state \<Rightarrow> error + formatter_base" where
  "formatter_of b =
     (case formatter_opt b of None \<Rightarrow> Inl AssertionError | Some f \<Rightarrow> Inr f)"

definition set_formatter :: "formatter_base \<Rightarrow> block_state \<Rightarrow> block_state" where
  "set_formatter f b = b\<lparr>formatter_opt := Some f\<rparr>"

definition str_of :: "block_state \<Rightarrow> string" where
  "str_of b = str_join newline (strings b)"

definition push_string :: "block_state \<Rightarrow> string \<Rightarrow> string \<Rightarrow> error + block_state" where
  "push_string b s separator =
     (if strings b = [] then Inl IndexError
      else Inr (b\<lparr>strings := butlast (strings b) @
                               [str_join separator [last (strings b), s]]\<rparr>))"

definition push :: "block_state \<Rightarrow> string \<Rightarrow> int option \<Rightarrow> error + block_state" where
  "push b line ident_opt =
     (let idt = (case ident_opt of None \<Rightarrow> ident b | Some i \<Rightarrow> i) in
      if idt > 0 then
        (case formatter_of b of
           Inl e \<Rightarrow> Inl e
         | Inr f \<Rightarrow>
             Inr (b\<lparr>strings := strings b @
                    [concat (replicate (nat idt) (ident_character f)) @ line]\<rparr>))
      else Inr (b\<lparr>strings := strings b @ [line]\<rparr>))"

definition push_empty_line :: "block_state \<Rightarrow> error + block_state" where
  "push_empty_line b = push b [] None"

definition clear :: "block_state \<Rightarrow> block_state" where
  "clear b = b\<lparr>strings := []\<rparr>"

text \<open>\<^verbatim>\<open>collect\<close> returns the text and leaves the block with its buffer cleared.\<close>

definition collect :: "block_state \<Rightarrow> string \<times> block_state" where
  "collect b = (str_of b, clear b)"

text \<open>
  A Block object: its attributes and the bodies of its two methods, each a change of the
  attributes that may raise. \<^verbatim>\<open>Block.render\<close> is abstract and \<^verbatim>\<open>Block.defer\<close> raises
  \<^verbatim>\<open>NotImplementedError\<close> unless a subclass overrides it.
\<close>

record block =
  state :: block_state
  block_render :: "block_state \<Rightarrow> error + block_state"
  block_defer :: "block_state \<Rightarrow> error + block_state"

definition defer_default :: "block_state \<Rightarrow> error + block_state" where
  "defer_default b = Inl NotImplementedError"

definition new_block_state :: "formatter_base option \<Rightarrow> int \<Rightarrow> block_state" where
  "new_block_state fo i = \<lparr>strings = [], formatter_opt = fo, ident = i\<rparr>"

text \<open>
  The two blocks of \<^verbatim>\<open>src/bitproto/renderer/impls/c/renderer_c.py\<close>:
  \<^verbatim>\<open>IncludeHeaderFile\<close> pushes one line, \<^verbatim>\<open>MessageEncoderBlock.render\<close> is \<^verbatim>\<open>pass\<close>; neither
  overrides \<^verbatim>\<open>defer\<close>.
\<close>

definition IncludeHeaderFile :: "string \<Rightarrow> block" where
  "IncludeHeaderFile header_filename =
     \<lparr>state = new_block_state None 0,
      block_render = (\<lambda>b. push b (''#include '' @ [CHR 0x22] @ header_filename @ [CHR 0x22]) None),
      block_defer = defer_default\<rparr>"

definition MessageEncoderBlock :: block where
  "MessageEncoderBlock =
     \<lparr>state = new_block_state None 0,
      block_render = (\<lambda>b. Inr b),
      block_defer = defer_default\<rparr>"

subsection \<open>\<^verbatim>\<open>Renderer\<close> (renderer.py)\<close>

text \<open>
  What \<^verbatim>\<open>Renderer\<close> reads of a Proto: its name and its file path (\<^verbatim>\<open>None\<close> when it was not
  parsed from a file).
\<close>

record proto =
  proto_name :: string
  filepath :: "string option"

text \<open>
  The functions of the module \<^verbatim>\<open>os\<close> that \<^verbatim>\<open>Renderer\<close> calls are parameters; \<open>splitext_root\<close>
  is \<^verbatim>\<open>os.path.splitext(p)[0]\<close>.
\<close>

record os_env =
  getcwd :: string
  abspath :: "string \<Rightarrow> string"
  dirname :: "string \<Rightarrow> string"
  basename :: "string \<Rightarrow> string"
  splitext_root :: "string \<Rightarrow> string"
  path_join :: "string \<Rightarrow> string \<Rightarrow> string"

text \<open>The attributes \<^verbatim>\<open>Renderer.__init__\<close> sets.\<close>

record renderer =
  proto_of :: proto
  outdir :: string
  out_filename :: string
  out_filepath :: string

text \<open>A Renderer class: its three abstract methods.\<close>

record renderer_class =
  file_extension :: string
  formatter :: formatter_base
  blocks :: "renderer \<Rightarrow> block list"

text \<open>Python's truth value of an optional string.\<close>

fun truthy :: "string option \<Rightarrow> bool" where
  "truthy None = False"
| "truthy (Some s) = (s \<noteq> [])"

definition get_outdir_default :: "os_env \<Rightarrow> proto \<Rightarrow> string" where
  "get_outdir_default os p =
     (if truthy (filepath p) then dirname os (abspath os (the (filepath p)))
      else getcwd os)"

definition format_out_filename :: "os_env \<Rightarrow> renderer_class \<Rightarrow> proto \<Rightarrow> string" where
  "format_out_filename os cls p =
     (let out_base_name =
            (if truthy (filepath p) then splitext_root os (basename os (the (filepath p)))
             else proto_name p)
      in out_base_name @ ''_bp'' @ file_extension cls)"

definition new_renderer ::
  "os_env \<Rightarrow> renderer_class \<Rightarrow> proto \<Rightarrow> string option \<Rightarrow> renderer" where
  "new_renderer os cls p outdir_opt =
     (let od = (if truthy outdir_opt then the outdir_opt else get_outdir_default os p);
          fn = format_out_filename os cls p
      in \<lparr>proto_of = p, outdir = od, out_filename = fn, out_filepath = path_join os od fn\<rparr>)"

text \<open>
  The loops of \<^verbatim>\<open>render_string\<close>. The first attaches the formatter. The second runs
  \<^verbatim>\<open>render()\<close> on each block and appends what \<^verbatim>\<open>collect()\<close> returns; an exception leaves the
  method. The third runs over the reversed list; \<^verbatim>\<open>NotImplementedError\<close> from \<^verbatim>\<open>defer()\<close> is
  caught and nothing is appended for that block, any other exception leaves the method.
\<close>

definition attach_all :: "formatter_base \<Rightarrow> block list \<Rightarrow> block list" where
  "attach_all f bs = map (\<lambda>b. b\<lparr>state := set_formatter f (state b)\<rparr>) bs"

fun render_phase :: "block list \<Rightarrow> string list \<Rightarrow> error + (block list \<times> string list)" where
  "render_phase [] strs = Inr ([], strs)"
| "render_phase (b # bs) strs =
     (case block_render b (state b) of
        Inl e \<Rightarrow> Inl e
      | Inr st \<Rightarrow>
          (let (s, st') = collect st in
           case render_phase bs (strs @ [s]) of
             Inl e \<Rightarrow> Inl e
           | Inr (bs', strs') \<Rightarrow> Inr (b\<lparr>state := st'\<rparr> # bs', strs')))"

fun defer_phase :: "block list \<Rightarrow> string list \<Rightarrow> error + string list" where
  "defer_phase [] strs = Inr strs"
| "defer_phase (b # bs) strs =
     (case block_defer b (state b) of
        Inl NotImplementedError \<Rightarrow> defer_phase bs strs
      | Inl e \<Rightarrow> Inl e
      | Inr st \<Rightarrow> (let (s, st') = collect st in defer_phase bs (strs @ [s])))"

definition render_string :: "renderer_class \<Rightarrow> renderer \<Rightarrow> error + string" where
  "render_string cls r =
     (let bs = attach_all (formatter cls) (blocks cls r) in
      case render_phase bs [] of
        Inl e \<Rightarrow> Inl e
      | Inr (bs', strs) \<Rightarrow>
          (case defer_phase (rev bs') strs of
             Inl e \<Rightarrow> Inl e
           | Inr strs' \<Rightarrow> Inr (str_join (newline @ newline) strs')))"

text \<open>
  The file system, as far as \<^verbatim>\<open>Renderer.render\<close> changes it: the sequence of writes so far,
  each a path and the content written to it.
\<close>

type_synonym fs = "(string \<times> string) list"

definition renderer_render :: "renderer_class \<Rightarrow> renderer \<Rightarrow> fs \<Rightarrow> (error + string) \<times> fs" where
  "renderer_render cls r files =
     (case render_string cls r of
        Inl e \<Rightarrow> (Inl e, files)
      | Inr content \<Rightarrow> (Inr (out_filepath r), files @ [(out_filepath r, content)]))"

subsection \<open>The registry and \<^verbatim>\<open>render\<close> (renderer.py)\<close>

text \<open>
  The four Renderer classes the registry imports; only \<^verbatim>\<open>RendererC\<close> has (later) sources at
  hand, so they are parameters.
\<close>

record renderer_impls =
  RendererC :: renderer_class
  RendererCHeader :: renderer_class
  RendererGo :: renderer_class
  RendererPy :: renderer_class

definition get_renderer_registry :: "renderer_impls \<Rightarrow> (string \<rightharpoonup> renderer_class list)" where
  "get_renderer_registry impls =
     map_of [(''c'', [RendererC impls, RendererCHeader impls]),
             (''go'', [RendererGo impls]),
             (''py'', [RendererPy impls])]"

definition get_renderer_cls :: "renderer_impls \<Rightarrow> string \<Rightarrow> renderer_class list option" where
  "get_renderer_cls impls lang = get_renderer_registry impls lang"

text \<open>The loop of \<^verbatim>\<open>render\<close> over the classes; an exception leaves it with the writes done so far.\<close>

fun render_each ::
  "os_env \<Rightarrow> renderer_class list \<Rightarrow> proto \<Rightarrow> string option \<Rightarrow> string list \<Rightarrow> fs
   \<Rightarrow> (error + string list) \<times> fs" where
  "render_each os [] p od outs files = (Inr outs, files)"
| "render_each os (renderer_cls # rest) p od outs files =
     (let r = new_renderer os renderer_cls p od in
      case renderer_render renderer_cls r files of
        (Inl e, files') \<Rightarrow> (Inl e, files')
      | (Inr path, files') \<Rightarrow> render_each os rest p od (outs @ [path]) files')"

definition render ::
  "os_env \<Rightarrow> renderer_impls \<Rightarrow> proto \<Rightarrow> string \<Rightarrow> string option \<Rightarrow> fs
   \<Rightarrow> (error + string list) \<times> fs" where
  "render os impls p lang od files =
     (case get_renderer_cls impls lang of
        None \<Rightarrow> (Inl UnsupportedLanguageToRender, files)
      | Some clss \<Rightarrow> render_each os clss p od [] files)"

subsection \<open>What a block contributes to \<^verbatim>\<open>render_string\<close>\<close>

text \<open>
  The outcome of \<^verbatim>\<open>render()\<close> on a block to which the formatter has been attached, the text
  that \<^verbatim>\<open>collect()\<close> then returns, the outcome of \<^verbatim>\<open>defer()\<close> on the block as that
  \<^verbatim>\<open>collect()\<close> left it, and the texts of the defer phase: one if \<^verbatim>\<open>defer()\<close> returns, none
  if it raises.
\<close>

definition render_result :: "formatter_base \<Rightarrow> block \<Rightarrow> error + block_state" where
  "render_result f b = block_render b (set_formatter f (state b))"

definition render_text :: "formatter_base \<Rightarrow> block \<Rightarrow> string" where
  "render_text f b = (case render_result f b of Inl e \<Rightarrow> [] | Inr st \<Rightarrow> fst (collect st))"

definition defer_result :: "formatter_base \<Rightarrow> block \<Rightarrow> error + block_state" where
  "defer_result f b =
     (case render_result f b of Inl e \<Rightarrow> Inl e | Inr st \<Rightarrow> block_defer b (snd (collect st)))"

definition defer_texts :: "formatter_base \<Rightarrow> block \<Rightarrow> string list" where
  "defer_texts f b = (case defer_result f b of Inl e \<Rightarrow> [] | Inr st \<Rightarrow> [fst (collect st)])"

text \<open>
  The pieces in the order the specification gives: the render-phase texts in declaration order,
  then the defer-phase texts in reverse declaration order.
\<close>

definition pieces :: "formatter_base \<Rightarrow> block list \<Rightarrow> string list" where
  "pieces f bs = map (render_text f) bs @ concat (map (defer_texts f) (rev bs))"

text \<open>
  \<open>renders\<close>: \<^verbatim>\<open>render()\<close> returns. \<open>defers_or_lacks_defer\<close>: \<^verbatim>\<open>defer()\<close> returns or raises
  \<^verbatim>\<open>NotImplementedError\<close>, as \<^verbatim>\<open>Block.defer\<close> does when it is not overridden.
\<close>

definition renders :: "formatter_base \<Rightarrow> block \<Rightarrow> bool" where
  "renders f b = (case render_result f b of Inl e \<Rightarrow> False | Inr st \<Rightarrow> True)"

definition defers_or_lacks_defer :: "formatter_base \<Rightarrow> block \<Rightarrow> bool" where
  "defers_or_lacks_defer f b =
     (case defer_result f b of Inl e \<Rightarrow> e = NotImplementedError | Inr st \<Rightarrow> True)"

text \<open>
  The joining as section 4.5 (d) of the specification words it: a blank line between adjacent
  non-empty pieces, so that an empty piece brings no separator.
\<close>

definition join_nonempty :: "string list \<Rightarrow> string" where
  "join_nonempty ps = str_join (newline @ newline) (filter (\<lambda>s. s \<noteq> []) ps)"

text \<open>What one class of the registry writes, and whether its \<^verbatim>\<open>render_string\<close> returns.\<close>

definition render_content ::
  "os_env \<Rightarrow> proto \<Rightarrow> string option \<Rightarrow> renderer_class \<Rightarrow> string" where
  "render_content os p od cls =
     (case render_string cls (new_renderer os cls p od) of Inl e \<Rightarrow> [] | Inr s \<Rightarrow> s)"

definition render_succeeds ::
  "os_env \<Rightarrow> proto \<Rightarrow> string option \<Rightarrow> renderer_class \<Rightarrow> bool" where
  "render_succeeds os p od cls =
     (case render_string cls (new_renderer os cls p od) of Inl e \<Rightarrow> False | Inr s \<Rightarrow> True)"

subsection \<open>Concrete instances\<close>

text \<open>
  Instances on which the definitions above are run. The converters stand in for those of
  \<^verbatim>\<open>bitproto.utils\<close> on ASCII letters: \<open>ex_upper_case\<close> maps \<open>a..z\<close> to \<open>A..Z\<close>,
  \<open>ex_snake_case\<close> lowers every capital and puts an underscore before one that follows a
  small letter, \<open>ex_pascal_case\<close>
  raises the first letter and each letter after an underscore, dropping the underscore.
\<close>

definition ascii_upper :: "char \<Rightarrow> char" where
  "ascii_upper c =
     (let n = (of_char c :: nat) in if 97 \<le> n \<and> n \<le> 122 then char_of (n - 32) else c)"

definition ascii_lower :: "char \<Rightarrow> char" where
  "ascii_lower c =
     (let n = (of_char c :: nat) in if 65 \<le> n \<and> n \<le> 90 then char_of (n + 32) else c)"

definition ex_upper_case :: "string \<Rightarrow> string" where
  "ex_upper_case s = map ascii_upper s"

fun snake_from :: "bool \<Rightarrow> string \<Rightarrow> string" where
  "snake_from after_lower [] = []"
| "snake_from after_lower (c # cs) =
     (if ascii_lower c \<noteq> c
      then (if after_lower then [CHR ''_''] else []) @ ascii_lower c # snake_from False cs
      else c # snake_from (ascii_upper c \<noteq> c) cs)"

definition ex_snake_case :: "string \<Rightarrow> string" where
  "ex_snake_case s = snake_from False s"

fun pascal_from :: "bool \<Rightarrow> string \<Rightarrow> string" where
  "pascal_from up [] = []"
| "pascal_from up (c # cs) =
     (if c = CHR ''_'' then pascal_from True cs
      else (if up then ascii_upper c else c) # pascal_from False cs)"

definition ex_pascal_case :: "string \<Rightarrow> string" where
  "ex_pascal_case s = pascal_from True s"

definition ex_utils :: case_utils where
  "ex_utils =
     \<lparr>snake_case = ex_snake_case, upper_case = ex_upper_case, pascal_case = ex_pascal_case\<rparr>"

text \<open>Decimal digits of a Python integer, for the integer hooks of the instances.\<close>

function show_nat :: "nat \<Rightarrow> string" where
  "show_nat n =
     (if n < 10 then [char_of (48 + n)] else show_nat (n div 10) @ [char_of (48 + n mod 10)])"
  by pat_completeness auto
termination
  by (relation "measure (\<lambda>n. n)") auto

definition show_int :: "int \<Rightarrow> string" where
  "show_int i = (if i < 0 then CHR ''-'' # show_nat (nat (- i)) else show_nat (nat i))"

text \<open>
  A Formatter in the manner of C. Its case-style table is the one of the docstring of
  \<^verbatim>\<open>case_style_mapping\<close>; its three type hooks for definitions return the bare name.
\<close>

definition ex_formatter :: formatter where
  "ex_formatter =
     \<lparr>case_style_mapping = [Constant \<mapsto> EStr ''upper'', EnumField \<mapsto> ETuple [KStr ''snake'', KStr ''upper'']],
      indent_character = '' '',
      support_import_as_member = False,
      format_bool_value = (\<lambda>b. if b then ''true'' else ''false''),
      format_str_value = (\<lambda>s. [CHR 0x22] @ s @ [CHR 0x22]),
      format_int_value = show_int,
      format_bool_type = ''bool'',
      format_byte_type = ''unsigned char'',
      format_uint_type = (\<lambda>t. ''uint'' @ show_int (get_nbits_of_integer t) @ ''_t''),
      format_int_type = (\<lambda>t. ''int'' @ show_int (get_nbits_of_integer t) @ ''_t''),
      format_array_type = (\<lambda>e n nm. (case nm of None \<Rightarrow> [] | Some x \<Rightarrow> x) @ ''['' @ show_nat n @ '']''),
      format_int_value_type = Inl NotImplementedError,
      format_string_value_type = Inl NotImplementedError,
      format_bool_value_type = Inl NotImplementedError,
      format_enum_type = (\<lambda>t. Inr (name t)),
      format_message_type = (\<lambda>t. Inr (name t)),
      format_alias_type = (\<lambda>t. Inr (name t)),
      delimer_cross_proto = delimer_cross_proto_default,
      delimer_inner_proto = delimer_inner_proto_default,
      scopes_with_namespace = scopes_with_namespace_default\<rparr>"

definition ex_formatter_base :: formatter_base where
  "ex_formatter_base =
     \<lparr>ident_character = '' '',
      support_import = False,
      delimer_cross_proto_base = ''.'',
      delimer_inner_proto_base = ''_'',
      scopes_with_namespace_base = [Message, Proto],
      format_comment = (\<lambda>s. ''// '' @ s),
      format_bool_literal = (\<lambda>b. if b then ''true'' else ''false''),
      format_str_literal = (\<lambda>s. [CHR 0x22] @ s @ [CHR 0x22]),
      format_int_literal = show_int,
      format_bool_type_base = ''bool'',
      format_byte_type_base = ''unsigned char'',
      format_uint_type_base = (\<lambda>t. ''uint'' @ show_int (nbits_from_integer_type t) @ ''_t''),
      format_int_type_base = (\<lambda>t. ''int'' @ show_int (nbits_from_integer_type t) @ ''_t''),
      format_array_type_base = (\<lambda>e n. ''['' @ show_nat n @ '']''),
      format_enum_type_base = name,
      format_message_type_base = name,
      format_alias_type_base = name\<rparr>"

text \<open>
  A definition tree: the proto \<open>example\<close> holds the message \<open>Outer\<close>, which holds the message
  \<open>Inner\<close>, which holds \<open>field\<close>, once as an enum and once as a message. \<open>ex_color\<close> is a
  constant and \<open>ex_bare_constant\<close> an instance of the base class \<^verbatim>\<open>Constant\<close>, both with an
  empty \<open>scope_stack\<close>.
\<close>

definition ex_proto :: defn where
  "ex_proto = Def Proto ''example'' 0 [] [(''Outer'', 1)]"

definition ex_Outer :: defn where
  "ex_Outer = Def Message ''Outer'' 1 [ex_proto] [(''Inner'', 2)]"

definition ex_Inner :: defn where
  "ex_Inner = Def Message ''Inner'' 2 [ex_proto, ex_Outer] [(''field'', 3)]"

definition ex_field_enum :: defn where
  "ex_field_enum = Def Enum ''field'' 3 [ex_proto, ex_Outer, ex_Inner] []"

definition ex_field_message :: defn where
  "ex_field_message = Def Message ''field'' 3 [ex_proto, ex_Outer, ex_Inner] []"

definition ex_color :: defn where
  "ex_color = Def IntegerConstant ''color'' 7 [] []"

definition ex_bare_constant :: defn where
  "ex_bare_constant = Def Constant ''limit'' 8 [] []"

text \<open>
  Blocks and Renderer classes. \<open>ex_guard\<close> is a block that implements both phases: an include
  guard opened by \<^verbatim>\<open>render\<close> and closed by \<^verbatim>\<open>defer\<close>.
\<close>

definition ex_guard :: block where
  "ex_guard =
     \<lparr>state = new_block_state None 0,
      block_render = (\<lambda>b. push b ''#ifndef EXAMPLE_BP_H'' None),
      block_defer = (\<lambda>b. push b ''#endif'' None)\<rparr>"

definition ex_RendererC :: renderer_class where
  "ex_RendererC =
     \<lparr>file_extension = ''.c'',
      formatter = ex_formatter_base,
      blocks = (\<lambda>r. [IncludeHeaderFile ''example_bp.h'', MessageEncoderBlock,
                      IncludeHeaderFile ''other_bp.h''])\<rparr>"

definition ex_RendererCHeader :: renderer_class where
  "ex_RendererCHeader =
     \<lparr>file_extension = ''.h'',
      formatter = ex_formatter_base,
      blocks = (\<lambda>r. [ex_guard, IncludeHeaderFile ''stdint.h''])\<rparr>"

definition ex_RendererGo :: renderer_class where
  "ex_RendererGo =
     \<lparr>file_extension = ''.go'', formatter = ex_formatter_base, blocks = (\<lambda>r. [])\<rparr>"

definition ex_RendererPy :: renderer_class where
  "ex_RendererPy =
     \<lparr>file_extension = ''.py'', formatter = ex_formatter_base, blocks = (\<lambda>r. [])\<rparr>"

definition ex_impls :: renderer_impls where
  "ex_impls =
     \<lparr>RendererC = ex_RendererC, RendererCHeader = ex_RendererCHeader,
      RendererGo = ex_RendererGo, RendererPy = ex_RendererPy\<rparr>"

text \<open>
  An \<^verbatim>\<open>os\<close> in which paths are joined with a slash; the other path functions are not reached
  by the instances below, whose proto has no file path and whose \<open>outdir\<close> is given.
\<close>

definition ex_os :: os_env where
  "ex_os =
     \<lparr>getcwd = ''/work'', abspath = (\<lambda>p. p), dirname = (\<lambda>p. p), basename = (\<lambda>p. p),
      splitext_root = (\<lambda>p. p), path_join = (\<lambda>a b. a @ ''/'' @ b)\<rparr>"

definition ex_unit :: proto where
  "ex_unit = \<lparr>proto_name = ''example'', filepath = None\<rparr>"

definition ex_renderer :: "renderer_class \<Rightarrow> renderer" where
  "ex_renderer cls = new_renderer ex_os cls ex_unit (Some ''out'')"

section \<open>Properties\<close>

subsection \<open>Numeric width selection\<close>

text \<open>
  C9. \<^verbatim>\<open>get_nbits_of_integer\<close> of \<^verbatim>\<open>formatter.py\<close> and \<^verbatim>\<open>nbits_from_integer_type\<close> of
  \<^verbatim>\<open>renderer.py\<close> map the byte count of an integer type to a bit width by the same table:
  1 byte gives 8 bits, 2 bytes give 16, 3 or 4 bytes give 32, 5 to 8 bytes give 64, and a byte
  count above 8 gives the byte count times 8, not rounded further.
\<close>

theorem nbits_table:
  "(nbytes t = 1 \<longrightarrow> get_nbits_of_integer t = 8 \<and> nbits_from_integer_type t = 8) \<and>
   (nbytes t = 2 \<longrightarrow> get_nbits_of_integer t = 16 \<and> nbits_from_integer_type t = 16) \<and>
   (nbytes t = 3 \<or> nbytes t = 4 \<longrightarrow>
      get_nbits_of_integer t = 32 \<and> nbits_from_integer_type t = 32) \<and>
   (5 \<le> nbytes t \<and> nbytes t \<le> 8 \<longrightarrow>
      get_nbits_of_integer t = 64 \<and> nbits_from_integer_type t = 64) \<and>
   (8 < nbytes t \<longrightarrow>
      get_nbits_of_integer t = nbytes t * 8 \<and> nbits_from_integer_type t = nbytes t * 8)"
  by (auto simp: get_nbits_of_integer_def nbits_from_integer_type_def Let_def)

text \<open>The byte counts 1 to 9 give 8, 16, 32, 32, 64, 64, 64, 64, 72.\<close>

theorem nbits_table_witness:
  "map (\<lambda>n. get_nbits_of_integer \<lparr>nbytes = n\<rparr>) [1, 2, 3, 4, 5, 6, 7, 8, 9]
     = [8, 16, 32, 32, 64, 64, 64, 64, 72] \<and>
   map (\<lambda>n. nbits_from_integer_type \<lparr>nbytes = n\<rparr>) [1, 2, 3, 4, 5, 6, 7, 8, 9]
     = [8, 16, 32, 32, 64, 64, 64, 64, 72]"
  using nbits_table [of "\<lparr>nbytes = 1\<rparr>"] nbits_table [of "\<lparr>nbytes = 2\<rparr>"]
    nbits_table [of "\<lparr>nbytes = 3\<rparr>"] nbits_table [of "\<lparr>nbytes = 4\<rparr>"]
    nbits_table [of "\<lparr>nbytes = 5\<rparr>"] nbits_table [of "\<lparr>nbytes = 6\<rparr>"]
    nbits_table [of "\<lparr>nbytes = 7\<rparr>"] nbits_table [of "\<lparr>nbytes = 8\<rparr>"]
    nbits_table [of "\<lparr>nbytes = 9\<rparr>"]
  by simp

subsection \<open>The buffer of a Block\<close>

text \<open>
  C8. \<^verbatim>\<open>Block.collect()\<close> returns the buffered lines joined by newlines and leaves the buffer
  empty, so a second \<^verbatim>\<open>collect()\<close> with no write in between returns the empty string, whatever
  the first one returned.
\<close>

theorem collect_consume_once:
  "fst (collect b) = str_join newline (strings b) \<and>
   strings (snd (collect b)) = [] \<and>
   fst (collect (snd (collect b))) = []"
  by (simp add: collect_def str_of_def clear_def)

subsection \<open>Case-style conversion\<close>

lemma from_name_unrecognized:
  "nm \<noteq> ''snake'' \<Longrightarrow> nm \<noteq> ''upper'' \<Longrightarrow> nm \<noteq> ''pascal'' \<Longrightarrow> from_name nm = KEEP"
  by (simp add: from_name_def)

lemma apply_case_style_names_hashable:
  "list_all key_hashable ks \<Longrightarrow>
   apply_case_style_names u ks s
     = Inr (apply_in_order (map (\<lambda>k. converter u (style_of_key k)) ks) s)"
proof (induction ks arbitrary: s)
  case Nil
  then show ?case by simp
next
  case (Cons k ks)
  then show ?case by (cases k) simp_all
qed

lemma apply_in_order_keep:
  "list_all (\<lambda>k. key_hashable k \<and> \<not> key_is_style k) ks \<Longrightarrow>
   apply_in_order (map (\<lambda>k. converter u (style_of_key k)) ks) s = s"
proof (induction ks arbitrary: s)
  case Nil
  then show ?case by simp
next
  case (Cons k ks)
  then show ?case
    by (cases k) (simp_all add: from_name_unrecognized keep_case_def)
qed

text \<open>
  C10. When the table entry of a class is a string other than \<^verbatim>\<open>"snake"\<close>, \<^verbatim>\<open>"upper"\<close> and
  \<^verbatim>\<open>"pascal"\<close>, \<^verbatim>\<open>CaseStyle.from_name\<close> maps it to \<open>KEEP\<close> and \<^verbatim>\<open>format_case_style\<close> returns
  the string it was given, unchanged and without an error.
\<close>

theorem unrecognized_style_name_keeps:
  assumes "nm \<noteq> ''snake''" and "nm \<noteq> ''upper''" and "nm \<noteq> ''pascal''"
    and "case_style_mapping f cls = Some (EStr nm)"
  shows "from_name nm = KEEP \<and> format_case_style u f s cls = Inr s"
  using assms by (simp add: format_case_style_def from_name_unrecognized keep_case_def)

theorem unrecognized_style_name_keeps_witness:
  "from_name ''uper'' = KEEP \<and>
   format_case_style ex_utils (ex_formatter\<lparr>case_style_mapping := [Constant \<mapsto> EStr ''uper'']\<rparr>)
     ''max_size'' Constant = Inr ''max_size''"
  by (rule unrecognized_style_name_keeps) simp_all

text \<open>
  C7, as stated: an entry that is neither a style name string, nor a tuple of style name
  strings, nor a callable makes \<^verbatim>\<open>format_case_style\<close> raise \<^verbatim>\<open>InternalError\<close> and is never
  silently ignored. The tuples \<^verbatim>\<open>(1, 2)\<close> and \<^verbatim>\<open>(upper_case,)\<close> are such entries: the method
  takes its tuple branch, \<^verbatim>\<open>from_name\<close> gives \<open>KEEP\<close> for each element and the string comes
  back unchanged, with no error.
\<close>

theorem format_case_style_tuple_counterexample:
  "\<not> entry_is_str (ETuple [KInt 1, KInt 2]) \<and>
   \<not> entry_is_tuple_of_str (ETuple [KInt 1, KInt 2]) \<and>
   \<not> entry_is_callable (ETuple [KInt 1, KInt 2]) \<and>
   format_case_style ex_utils
     (ex_formatter\<lparr>case_style_mapping := [EnumField \<mapsto> ETuple [KInt 1, KInt 2]]\<rparr>)
     ''FooBar'' EnumField = Inr ''FooBar'' \<and>
   \<not> entry_is_tuple_of_str (ETuple [KCallable ex_upper_case]) \<and>
   format_case_style ex_utils
     (ex_formatter\<lparr>case_style_mapping := [EnumField \<mapsto> ETuple [KCallable ex_upper_case]]\<rparr>)
     ''FooBar'' EnumField = Inr ''FooBar''"
  by (simp add: format_case_style_def keep_case_def)

text \<open>
  C7, amended. A table entry that is neither a \<^verbatim>\<open>str\<close>, nor a tuple, nor a callable makes
  \<^verbatim>\<open>format_case_style\<close> raise \<^verbatim>\<open>InternalError\<close>. The elements of a tuple are resolved by
  \<^verbatim>\<open>from_name\<close> and their converters applied one by one, the first element first; an element
  that is not one of \<^verbatim>\<open>"snake"\<close>, \<^verbatim>\<open>"upper"\<close>, \<^verbatim>\<open>"pascal"\<close>, be it another string or a hashable
  object that is no string, resolves to keep, so that a tuple of such elements returns the
  string unchanged and without error. A class absent from the table is converted by the
  identity.
\<close>

theorem format_case_style_entries:
  "(case_style_mapping f cls = Some e \<and>
      \<not> entry_is_str e \<and> \<not> entry_is_tuple e \<and> \<not> entry_is_callable e \<longrightarrow>
        format_case_style u f s cls = Inl (InternalError ''invalid case_style mapping value'')) \<and>
   (case_style_mapping f cls = Some (ETuple names) \<and> list_all key_hashable names \<longrightarrow>
        format_case_style u f s cls
          = Inr (apply_in_order (map (\<lambda>k. converter u (style_of_key k)) names) s)) \<and>
   (case_style_mapping f cls = Some (ETuple names) \<and>
      list_all (\<lambda>k. key_hashable k \<and> \<not> key_is_style k) names \<longrightarrow>
        format_case_style u f s cls = Inr s) \<and>
   (case_style_mapping f cls = None \<longrightarrow> format_case_style u f s cls = Inr s)"
proof (intro conjI impI)
  assume "case_style_mapping f cls = Some e \<and>
      \<not> entry_is_str e \<and> \<not> entry_is_tuple e \<and> \<not> entry_is_callable e"
  then show "format_case_style u f s cls = Inl (InternalError ''invalid case_style mapping value'')"
    by (cases e) (simp_all add: format_case_style_def)
next
  assume "case_style_mapping f cls = Some (ETuple names) \<and> list_all key_hashable names"
  then show "format_case_style u f s cls
          = Inr (apply_in_order (map (\<lambda>k. converter u (style_of_key k)) names) s)"
    by (simp add: format_case_style_def apply_case_style_names_hashable)
next
  assume a: "case_style_mapping f cls = Some (ETuple names) \<and>
      list_all (\<lambda>k. key_hashable k \<and> \<not> key_is_style k) names"
  then have "list_all key_hashable names"
    by (simp add: list_all_iff)
  with a show "format_case_style u f s cls = Inr s"
    by (simp add: format_case_style_def apply_case_style_names_hashable apply_in_order_keep)
next
  assume "case_style_mapping f cls = None"
  then show "format_case_style u f s cls = Inr s"
    by (simp add: format_case_style_def from_name_def keep_case_def)
qed

text \<open>
  An invalid entry, the tuple \<^verbatim>\<open>("snake", "upper")\<close> of the docstring, the same names in the
  other order, the tuple \<^verbatim>\<open>("uper", 1)\<close>, and a class that the table does not hold.
\<close>

theorem format_case_style_entries_witness:
  "format_case_style ex_utils (ex_formatter\<lparr>case_style_mapping := [Message \<mapsto> EOther]\<rparr>)
     ''FooBar'' Message = Inl (InternalError ''invalid case_style mapping value'') \<and>
   format_case_style ex_utils ex_formatter ''FooBar'' EnumField = Inr ''FOO_BAR'' \<and>
   format_case_style ex_utils
     (ex_formatter\<lparr>case_style_mapping := [EnumField \<mapsto> ETuple [KStr ''upper'', KStr ''snake'']]\<rparr>)
     ''FooBar'' EnumField = Inr ''foobar'' \<and>
   format_case_style ex_utils
     (ex_formatter\<lparr>case_style_mapping := [EnumField \<mapsto> ETuple [KStr ''uper'', KInt 1]]\<rparr>)
     ''FooBar'' EnumField = Inr ''FooBar'' \<and>
   format_case_style ex_utils ex_formatter ''FooBar'' Message = Inr ''FooBar''"
proof -
  have up: "ex_upper_case ''FooBar'' = ''FOOBAR''" "ex_upper_case ''foo_bar'' = ''FOO_BAR''"
    by code_simp+
  have sn: "ex_snake_case ''FooBar'' = ''foo_bar''" "ex_snake_case ''FOOBAR'' = ''foobar''"
    by code_simp+
  have cv: "converter ex_utils (from_name ''upper'') = ex_upper_case"
    "converter ex_utils (from_name ''snake'') = ex_snake_case"
    by (simp_all add: from_name_def ex_utils_def)
  have "format_case_style ex_utils (ex_formatter\<lparr>case_style_mapping := [Message \<mapsto> EOther]\<rparr>)
     ''FooBar'' Message = Inl (InternalError ''invalid case_style mapping value'')"
    using format_case_style_entries
            [of "ex_formatter\<lparr>case_style_mapping := [Message \<mapsto> EOther]\<rparr>" Message EOther
                ex_utils "''FooBar''" "[]"]
    by simp
  moreover have "format_case_style ex_utils ex_formatter ''FooBar'' EnumField = Inr ''FOO_BAR''"
  proof -
    have "case_style_mapping ex_formatter EnumField = Some (ETuple [KStr ''snake'', KStr ''upper''])
          \<and> list_all key_hashable [KStr ''snake'', KStr ''upper'']"
      by (simp add: ex_formatter_def)
    with format_case_style_entries
            [of ex_formatter EnumField EOther ex_utils "''FooBar''"
                "[KStr ''snake'', KStr ''upper'']"]
    have "format_case_style ex_utils ex_formatter ''FooBar'' EnumField
            = Inr (apply_in_order (map (\<lambda>k. converter ex_utils (style_of_key k))
                     [KStr ''snake'', KStr ''upper'']) ''FooBar'')"
      by blast
    then show ?thesis by (simp add: cv up sn)
  qed
  moreover have "format_case_style ex_utils
     (ex_formatter\<lparr>case_style_mapping := [EnumField \<mapsto> ETuple [KStr ''upper'', KStr ''snake'']]\<rparr>)
     ''FooBar'' EnumField = Inr ''foobar''"
  proof -
    let ?f = "ex_formatter\<lparr>case_style_mapping :=
                [EnumField \<mapsto> ETuple [KStr ''upper'', KStr ''snake'']]\<rparr>"
    have "case_style_mapping ?f EnumField = Some (ETuple [KStr ''upper'', KStr ''snake''])
          \<and> list_all key_hashable [KStr ''upper'', KStr ''snake'']"
      by simp
    with format_case_style_entries
            [of ?f EnumField EOther ex_utils "''FooBar''" "[KStr ''upper'', KStr ''snake'']"]
    have "format_case_style ex_utils ?f ''FooBar'' EnumField
            = Inr (apply_in_order (map (\<lambda>k. converter ex_utils (style_of_key k))
                     [KStr ''upper'', KStr ''snake'']) ''FooBar'')"
      by blast
    then show ?thesis by (simp add: cv up sn)
  qed
  moreover have "format_case_style ex_utils
     (ex_formatter\<lparr>case_style_mapping := [EnumField \<mapsto> ETuple [KStr ''uper'', KInt 1]]\<rparr>)
     ''FooBar'' EnumField = Inr ''FooBar''"
  proof -
    let ?f = "ex_formatter\<lparr>case_style_mapping := [EnumField \<mapsto> ETuple [KStr ''uper'', KInt 1]]\<rparr>"
    have "case_style_mapping ?f EnumField = Some (ETuple [KStr ''uper'', KInt 1])
          \<and> list_all (\<lambda>k. key_hashable k \<and> \<not> key_is_style k) [KStr ''uper'', KInt 1]"
      by simp
    with format_case_style_entries
            [of ?f EnumField EOther ex_utils "''FooBar''" "[KStr ''uper'', KInt 1]"]
    show ?thesis by blast
  qed
  moreover have "format_case_style ex_utils ex_formatter ''FooBar'' Message = Inr ''FooBar''"
  proof -
    have "case_style_mapping ex_formatter Message = None"
      by (simp add: ex_formatter_def)
    with format_case_style_entries [of ex_formatter Message EOther ex_utils "''FooBar''" "[]"]
    show ?thesis by blast
  qed
  ultimately show ?thesis by blast
qed

subsection \<open>Dispatch on values\<close>

text \<open>
  C5. A boolean satisfies \<^verbatim>\<open>isinstance(value, int)\<close>, yet \<^verbatim>\<open>format_value\<close> and
  \<^verbatim>\<open>format_literal\<close> hand it to the boolean hook: the test for \<^verbatim>\<open>True\<close> and \<^verbatim>\<open>False\<close> comes
  first, and the result does not depend on the integer hook.
\<close>

theorem bool_before_int:
  "isinstance_int (PyBool b) \<and>
   format_value f (PyBool b) = Some (format_bool_value f b) \<and>
   format_value (f\<lparr>format_int_value := h\<rparr>) (PyBool b) = format_value f (PyBool b) \<and>
   format_literal g (PyBool b) = Some (format_bool_literal g b) \<and>
   format_literal (g\<lparr>format_int_literal := h\<rparr>) (PyBool b) = format_literal g (PyBool b)"
  by (simp add: format_value_def format_literal_def)

subsection \<open>Definition names\<close>

lemma isinstance_Message [simp]:
  "class_of x = Message \<Longrightarrow> isinstance x Message"
  "class_of x = Message \<Longrightarrow> isinstance x BoundScope"
  "class_of x = Message \<Longrightarrow> \<not> isinstance x Proto"
  by (simp_all add: isinstance_def issubclass_def eval_nat_numeral)

lemma isinstance_Proto [simp]:
  "class_of x = Proto \<Longrightarrow> isinstance x Proto"
  "class_of x = Proto \<Longrightarrow> \<not> isinstance x BoundScope"
  "class_of x = Proto \<Longrightarrow> \<not> isinstance x Message"
  by (simp_all add: isinstance_def issubclass_def eval_nat_numeral)

text \<open>
  \<^verbatim>\<open>_format_definition_name_inner_proto\<close> of \<^verbatim>\<open>formatter.py\<close> filters the scopes by their own
  class: under a proto and two messages the three local names are joined.
\<close>

lemma inner_proto_two_levels:
  assumes "scope_stack d = [p, outer, inner]"
    and "class_of p = Proto" and "class_of outer = Message" and "class_of inner = Message"
    and "scopes_with_namespace f = [Message, Proto]"
  shows "p_format_definition_name_inner_proto f d
           = p_get_definition_name outer @ delimer_inner_proto f @
             p_get_definition_name inner @ delimer_inner_proto f @ p_get_definition_name d"
  using assms
  by (simp add: p_format_definition_name_inner_proto_def isinstance_any_def Let_def)

text \<open>
  \<^verbatim>\<open>format_definition_name\<close> of \<^verbatim>\<open>renderer.py\<close> tests the class of the definition in its
  comprehension: a definition that is not itself of a namespace class keeps no namespace and
  gets its local name, however deep it is nested.
\<close>

lemma base_never_qualifies:
  assumes "\<not> isinstance_any d (scopes_with_namespace_base g)" and "scope_stack d \<noteq> []"
  shows "format_definition_name_base g d
           = or_else (get_name_by_member (last (scope_stack d)) d) (name d)"
  using assms by (subst format_definition_name_base.simps) (simp add: Let_def)

text \<open>
  C1. The claim: a definition \<open>field\<close> in a message \<open>Inner\<close> in a message \<open>Outer\<close> is named
  \<open>Outer_Inner_field\<close>, the scopes of its \<open>scope_stack\<close> being filtered down to the
  namespace-defining ones. On the enum \<open>field\<close> of the tree above, \<^verbatim>\<open>format_definition_name\<close> of
  \<^verbatim>\<open>renderer.py\<close> returns \<open>field\<close>, while both methods of \<^verbatim>\<open>formatter.py\<close> return
  \<open>Outer_Inner_field\<close>; \<^verbatim>\<open>renderer.py\<close> reaches that name only when \<open>field\<close> is itself a message.
\<close>

theorem nested_name_in_both_formatters:
  "format_definition_name_base ex_formatter_base ex_field_enum = ''field'' \<and>
   p_format_definition_name_inner_proto ex_formatter ex_field_enum = ''Outer_Inner_field'' \<and>
   format_definition_name ex_utils ex_formatter ex_field_enum None = Inr ''Outer_Inner_field'' \<and>
   format_definition_name_base ex_formatter_base ex_field_message = ''Outer_Inner_field''"
  by code_simp

text \<open>
  C2, as stated: a definition with an empty \<open>scope_stack\<close> gets its own name unchanged from
  every formatter. \<^verbatim>\<open>format_definition_name\<close> of \<^verbatim>\<open>formatter.py\<close> converts the name by the case
  style of the class: with the table of the docstring, the constant \<open>limit\<close> becomes \<open>LIMIT\<close>,
  and with a callable in the table for \<^verbatim>\<open>Proto\<close>, the proto \<open>example\<close> becomes what the
  callable returns.
\<close>

theorem empty_scope_stack_counterexample:
  "scope_stack ex_bare_constant = [] \<and>
   name ex_bare_constant = ''limit'' \<and>
   format_definition_name ex_utils ex_formatter ex_bare_constant None = Inr ''LIMIT'' \<and>
   scope_stack ex_proto = [] \<and>
   name ex_proto = ''example'' \<and>
   format_definition_name ex_utils
     (ex_formatter\<lparr>case_style_mapping := [Proto \<mapsto> ECallable (\<lambda>s. s @ ''_bp'')]\<rparr>)
     ex_proto None = Inr ''example_bp''"
  by code_simp

text \<open>
  C2, amended. For a definition with an empty \<open>scope_stack\<close>, \<^verbatim>\<open>format_definition_name\<close> of
  \<^verbatim>\<open>renderer.py\<close> returns the name unchanged; \<^verbatim>\<open>format_definition_name\<close> of \<^verbatim>\<open>formatter.py\<close>
  joins nothing to it and returns what \<^verbatim>\<open>format_case_style\<close> makes of the name for the class
  given, or else for the class of the definition: the name unchanged when the table does not
  hold that class.
\<close>

theorem empty_scope_stack_name:
  assumes "scope_stack d = []"
  shows "format_definition_name_base g d = name d \<and>
         format_definition_name u f d class_opt
           = format_case_style u f (name d)
               (case class_opt of None \<Rightarrow> class_of d | Some c \<Rightarrow> c) \<and>
         (case_style_mapping f (case class_opt of None \<Rightarrow> class_of d | Some c \<Rightarrow> c) = None \<longrightarrow>
            format_definition_name u f d class_opt = Inr (name d))"
proof -
  have inner: "p_format_definition_name_inner_proto f d = name d"
    using assms by (simp add: p_format_definition_name_inner_proto_def p_get_definition_name_def)
  have full: "format_definition_name u f d class_opt
           = format_case_style u f (name d)
               (case class_opt of None \<Rightarrow> class_of d | Some c \<Rightarrow> c)"
    using assms
    by (simp add: format_definition_name_def format_definition_name_inner_proto_def inner
        split: sum.splits)
  have keep: "format_case_style u f s k = Inr s" if "case_style_mapping f k = None" for s k
    using that by (simp add: format_case_style_def from_name_def keep_case_def)
  show ?thesis
    using assms full keep by simp
qed

theorem empty_scope_stack_name_witness:
  "format_definition_name_base ex_formatter_base ex_proto = ''example'' \<and>
   format_definition_name ex_utils ex_formatter ex_proto None = Inr ''example'' \<and>
   format_definition_name ex_utils ex_formatter ex_bare_constant None
     = format_case_style ex_utils ex_formatter ''limit'' Constant"
proof -
  have a: "scope_stack ex_proto = []" "name ex_proto = ''example''" "class_of ex_proto = Proto"
    by (simp_all add: ex_proto_def)
  have b: "scope_stack ex_bare_constant = []" "name ex_bare_constant = ''limit''"
    "class_of ex_bare_constant = Constant"
    by (simp_all add: ex_bare_constant_def)
  have m: "case_style_mapping ex_formatter Proto = None"
    by (simp add: ex_formatter_def)
  note at_proto =
    empty_scope_stack_name [OF a(1), of ex_formatter_base ex_utils ex_formatter None]
  note at_constant =
    empty_scope_stack_name [OF b(1), of ex_formatter_base ex_utils ex_formatter None]
  have "format_definition_name_base ex_formatter_base ex_proto = ''example''"
    using at_proto unfolding a by blast
  moreover have "format_definition_name ex_utils ex_formatter ex_proto None = Inr ''example''"
    using at_proto m unfolding a option.case by blast
  moreover have "format_definition_name ex_utils ex_formatter ex_bare_constant None
     = format_case_style ex_utils ex_formatter ''limit'' Constant"
    using at_constant unfolding b option.case by blast
  ultimately show ?thesis by simp
qed

subsection \<open>Dispatch on types and constants\<close>

lemma only_three_constants:
  "isinstance c StringConstant \<Longrightarrow> \<not> isinstance c BooleanConstant"
  "isinstance c IntegerConstant \<Longrightarrow> \<not> isinstance c BooleanConstant"
  "isinstance c IntegerConstant \<Longrightarrow> \<not> isinstance c StringConstant"
  by (cases "class_of c"; simp add: isinstance_def issubclass_def eval_nat_numeral)+

text \<open>
  C3, as stated: each dispatcher fails with an internal error on an input outside its variant
  set and returns no fallback. \<^verbatim>\<open>format_type\<close> of \<^verbatim>\<open>renderer.py\<close> returns the string
  \<^verbatim>\<open>"_unknown_type"\<close> for a Type that is none of the eight classes.
\<close>

theorem dispatch_fallback_counterexample:
  "format_type_base ex_formatter_base TOther = ''_unknown_type''"
  by simp

text \<open>
  C3, amended. \<^verbatim>\<open>format_type\<close> and \<^verbatim>\<open>format_constant_type\<close> of \<^verbatim>\<open>formatter.py\<close> raise
  \<^verbatim>\<open>InternalError\<close> on an input that is none of their variants; on each variant of its closed
  set, each of \<^verbatim>\<open>format_type\<close>, \<^verbatim>\<open>format_constant_type\<close> and \<^verbatim>\<open>format_value\<close> returns what the
  matching hook returns; \<^verbatim>\<open>format_type\<close> of \<^verbatim>\<open>renderer.py\<close> returns \<^verbatim>\<open>"_unknown_type"\<close> on a
  Type that is none of the eight.
\<close>

theorem dispatch_unrecognized:
  "format_type f TOther nm = Inl (InternalError ''unknown type for format_type'') \<and>
   (\<not> isinstance c BooleanConstant \<and> \<not> isinstance c StringConstant \<and>
    \<not> isinstance c IntegerConstant \<longrightarrow>
      format_constant_type f c = Inl (InternalError ''got unexpected constant type'')) \<and>
   format_type f TBool nm = Inr (format_bool_type f) \<and>
   format_type f TByte nm = Inr (format_byte_type f) \<and>
   format_type f (TUint t) nm = Inr (format_uint_type f t) \<and>
   format_type f (TInt t) nm = Inr (format_int_type f t) \<and>
   format_type f (TArray e n) nm = Inr (format_array_type f e n nm) \<and>
   format_type f (TEnum d) nm = format_enum_type f d \<and>
   format_type f (TMessage d) nm = format_message_type f d \<and>
   format_type f (TAlias d) nm = format_alias_type f d \<and>
   (isinstance c BooleanConstant \<longrightarrow> format_constant_type f c = format_bool_value_type f) \<and>
   (isinstance c StringConstant \<longrightarrow> format_constant_type f c = format_string_value_type f) \<and>
   (isinstance c IntegerConstant \<longrightarrow> format_constant_type f c = format_int_value_type f) \<and>
   format_value f (PyBool b) = Some (format_bool_value f b) \<and>
   format_value f (PyStr s) = Some (format_str_value f s) \<and>
   format_value f (PyInt i) = Some (format_int_value f i) \<and>
   format_type_base g TOther = ''_unknown_type''"
  using only_three_constants [of c]
  by (auto simp: format_constant_type_def format_value_def)

theorem dispatch_unrecognized_witness:
  "format_constant_type ex_formatter ex_bare_constant
     = Inl (InternalError ''got unexpected constant type'') \<and>
   format_constant_type (ex_formatter\<lparr>format_int_value_type := Inr ''int''\<rparr>) ex_color
     = Inr ''int'' \<and>
   format_constant_type (ex_formatter\<lparr>format_bool_value_type := Inr ''bool''\<rparr>)
     (Def BooleanConstant ''enabled'' 9 [] []) = Inr ''bool'' \<and>
   format_constant_type ex_formatter (Def StringConstant ''title'' 10 [] [])
     = Inl NotImplementedError \<and>
   format_type ex_formatter TOther None = Inl (InternalError ''unknown type for format_type'') \<and>
   format_type_base ex_formatter_base TOther = ''_unknown_type''"
proof -
  have a: "\<not> isinstance ex_bare_constant BooleanConstant \<and>
           \<not> isinstance ex_bare_constant StringConstant \<and>
           \<not> isinstance ex_bare_constant IntegerConstant"
    by code_simp
  have b: "isinstance ex_color IntegerConstant"
    by code_simp
  note at_bare = dispatch_unrecognized [of ex_formatter None ex_bare_constant]
  note at_color =
    dispatch_unrecognized [of "ex_formatter\<lparr>format_int_value_type := Inr ''int''\<rparr>" None ex_color]
  have "format_constant_type ex_formatter ex_bare_constant
     = Inl (InternalError ''got unexpected constant type'')"
    using at_bare a by blast
  moreover have "format_constant_type (ex_formatter\<lparr>format_int_value_type := Inr ''int''\<rparr>) ex_color
     = Inr ''int''"
    using at_color b by simp
  moreover have "format_constant_type (ex_formatter\<lparr>format_bool_value_type := Inr ''bool''\<rparr>)
     (Def BooleanConstant ''enabled'' 9 [] []) = Inr ''bool''"
  proof -
    have "isinstance (Def BooleanConstant ''enabled'' 9 [] []) BooleanConstant"
      by code_simp
    then show ?thesis
      using dispatch_unrecognized
              [of "ex_formatter\<lparr>format_bool_value_type := Inr ''bool''\<rparr>" None
                  "Def BooleanConstant ''enabled'' 9 [] []"]
      by simp
  qed
  moreover have "format_constant_type ex_formatter (Def StringConstant ''title'' 10 [] [])
     = Inl NotImplementedError"
  proof -
    have "isinstance (Def StringConstant ''title'' 10 [] []) StringConstant"
      by code_simp
    then show ?thesis
      using dispatch_unrecognized [of ex_formatter None "Def StringConstant ''title'' 10 [] []"]
      by (simp add: ex_formatter_def)
  qed
  moreover have "format_type ex_formatter TOther None
     = Inl (InternalError ''unknown type for format_type'')"
    using at_bare by blast
  moreover have "format_type_base ex_formatter_base TOther = ''_unknown_type''"
    using at_bare by blast
  ultimately show ?thesis by simp
qed

subsection \<open>The two phases of \<^verbatim>\<open>render_string\<close>\<close>

lemma render_phase_ok:
  "list_all (\<lambda>b. \<exists>st. block_render b (state b) = Inr st) bs \<Longrightarrow>
   render_phase bs strs =
     Inr (map (\<lambda>b. b\<lparr>state := snd (collect (projr (block_render b (state b))))\<rparr>) bs,
          strs @ map (\<lambda>b. fst (collect (projr (block_render b (state b))))) bs)"
proof (induction bs arbitrary: strs)
  case Nil
  then show ?case by simp
next
  case (Cons b bs)
  then obtain st where st: "block_render b (state b) = Inr st" by auto
  from Cons.prems have "list_all (\<lambda>b. \<exists>st. block_render b (state b) = Inr st) bs" by simp
  from Cons.IH [OF this] show ?case
    by (simp add: st split: prod.splits)
qed

lemma defer_phase_ok:
  "list_all (\<lambda>b. case block_defer b (state b) of Inl e \<Rightarrow> e = NotImplementedError
                    | Inr st \<Rightarrow> True) bs \<Longrightarrow>
   defer_phase bs strs =
     Inr (strs @ concat (map (\<lambda>b. case block_defer b (state b) of Inl e \<Rightarrow> []
                                     | Inr st \<Rightarrow> [fst (collect st)]) bs))"
proof (induction bs arbitrary: strs)
  case Nil
  then show ?case by simp
next
  case (Cons b bs)
  from Cons.prems have rest: "list_all (\<lambda>b. case block_defer b (state b) of
      Inl e \<Rightarrow> e = NotImplementedError | Inr st \<Rightarrow> True) bs" by simp
  show ?case
  proof (cases "block_defer b (state b)")
    case (Inl e)
    with Cons.prems have "e = NotImplementedError" by simp
    with Inl Cons.IH [OF rest] show ?thesis by simp
  next
    case (Inr st)
    with Cons.IH [OF rest] show ?thesis by (simp split: prod.splits)
  qed
qed

lemma renders_iff: "renders f b \<longleftrightarrow> (\<exists>st. render_result f b = Inr st)"
  by (cases "render_result f b") (simp_all add: renders_def)

text \<open>
  C4, as stated: the pieces are joined with one blank line between adjacent non-empty pieces.
  The Renderer below has three blocks, none with a \<^verbatim>\<open>defer\<close>; the second,
  \<^verbatim>\<open>MessageEncoderBlock\<close>, renders nothing. \<^verbatim>\<open>render_string\<close> puts four newlines between the two
  include lines, where the claim has two.
\<close>

theorem render_string_blank_lines_counterexample:
  "render_string ex_RendererC (ex_renderer ex_RendererC)
     = Inr (''#include '' @ [CHR 0x22] @ ''example_bp.h'' @ [CHR 0x22] @
            newline @ newline @ newline @ newline @
            ''#include '' @ [CHR 0x22] @ ''other_bp.h'' @ [CHR 0x22]) \<and>
   join_nonempty (pieces (formatter ex_RendererC) (blocks ex_RendererC (ex_renderer ex_RendererC)))
     = ''#include '' @ [CHR 0x22] @ ''example_bp.h'' @ [CHR 0x22] @
       newline @ newline @
       ''#include '' @ [CHR 0x22] @ ''other_bp.h'' @ [CHR 0x22] \<and>
   render_string ex_RendererC (ex_renderer ex_RendererC)
     \<noteq> Inr (join_nonempty
              (pieces (formatter ex_RendererC) (blocks ex_RendererC (ex_renderer ex_RendererC))))"
  by code_simp

text \<open>
  C4, amended. When \<^verbatim>\<open>render()\<close> returns on every block and \<^verbatim>\<open>defer()\<close> returns or raises
  \<^verbatim>\<open>NotImplementedError\<close> on every block, \<^verbatim>\<open>render_string\<close> returns the render-phase text of
  each block in declaration order, followed by the defer-phase text of each block whose
  \<^verbatim>\<open>defer()\<close> returns, in reverse declaration order, joined with two newlines between every two
  adjacent pieces, empty pieces included; a block whose \<^verbatim>\<open>defer()\<close> raises
  \<^verbatim>\<open>NotImplementedError\<close> contributes no piece and no error.
\<close>

theorem render_string_order:
  assumes "list_all (\<lambda>b. renders (formatter cls) b \<and> defers_or_lacks_defer (formatter cls) b)
             (blocks cls r)"
  shows "render_string cls r
           = Inr (str_join (newline @ newline) (pieces (formatter cls) (blocks cls r)))"
proof -
  define f where "f = formatter cls"
  define bs where "bs = blocks cls r"
  define att where "att = attach_all f bs"
  define after :: "block \<Rightarrow> block" where
    "after = (\<lambda>b. b\<lparr>state := snd (collect (projr (block_render b (state b))))\<rparr>)"
  have ok: "renders f b \<and> defers_or_lacks_defer f b" if "b \<in> set bs" for b
    using assms that by (simp add: f_def bs_def list_all_iff)
  have r1: "list_all (\<lambda>b. \<exists>st. block_render b (state b) = Inr st) att"
    unfolding att_def attach_all_def list_all_iff
    using ok by (auto simp: renders_iff render_result_def)
  have text_of: "fst (collect (projr (render_result f b))) = render_text f b"
    if "b \<in> set bs" for b
  proof -
    from ok [OF that] obtain st where "render_result f b = Inr st"
      by (auto simp: renders_iff)
    then show ?thesis by (simp add: render_text_def)
  qed
  have texts: "map (\<lambda>b. fst (collect (projr (block_render b (state b))))) att
                 = map (render_text f) bs"
    unfolding att_def attach_all_def
    using text_of by (simp add: render_result_def comp_def)
  have at_defer: "block_defer (after a) (state (after a)) = defer_result f b"
    if "a = b\<lparr>state := set_formatter f (state b)\<rparr>" and "b \<in> set bs" for a b
  proof -
    from ok [OF that(2)] obtain st where "render_result f b = Inr st"
      by (auto simp: renders_iff)
    then show ?thesis
      using that(1) by (simp add: after_def defer_result_def render_result_def)
  qed
  have d1: "list_all (\<lambda>b. case block_defer b (state b) of Inl e \<Rightarrow> e = NotImplementedError
                    | Inr st \<Rightarrow> True) (rev (map after att))"
    unfolding att_def attach_all_def list_all_iff
    using ok at_defer by (auto simp: defers_or_lacks_defer_def)
  have dtexts: "concat (map (\<lambda>b. case block_defer b (state b) of Inl e \<Rightarrow> []
                                     | Inr st \<Rightarrow> [fst (collect st)]) (rev (map after att)))
       = concat (map (defer_texts f) (rev bs))"
    unfolding att_def attach_all_def
    using at_defer
    by (auto simp: rev_map defer_texts_def intro!: arg_cong [where f = concat])
  note rp = render_phase_ok [OF r1, of "[]"]
  note dp = defer_phase_ok [OF d1, of "map (render_text f) bs"]
  show ?thesis
    unfolding render_string_def Let_def
    using rp dp
    by (simp add: f_def [symmetric] bs_def [symmetric] att_def [symmetric] after_def [symmetric]
        texts dtexts pieces_def)
qed

text \<open>
  A guard block with both phases and an include block without \<^verbatim>\<open>defer\<close>: three pieces, the
  guard's closing line last.
\<close>

theorem render_string_order_witness:
  "list_all (\<lambda>b. renders (formatter ex_RendererCHeader) b \<and>
                   defers_or_lacks_defer (formatter ex_RendererCHeader) b)
     (blocks ex_RendererCHeader (ex_renderer ex_RendererCHeader)) \<and>
   pieces (formatter ex_RendererCHeader) (blocks ex_RendererCHeader (ex_renderer ex_RendererCHeader))
     = [''#ifndef EXAMPLE_BP_H'', ''#include '' @ [CHR 0x22] @ ''stdint.h'' @ [CHR 0x22],
        ''#endif''] \<and>
   render_string ex_RendererCHeader (ex_renderer ex_RendererCHeader)
     = Inr (''#ifndef EXAMPLE_BP_H'' @ newline @ newline @
            ''#include '' @ [CHR 0x22] @ ''stdint.h'' @ [CHR 0x22] @ newline @ newline @
            ''#endif'')"
proof -
  have ok: "list_all (\<lambda>b. renders (formatter ex_RendererCHeader) b \<and>
                   defers_or_lacks_defer (formatter ex_RendererCHeader) b)
     (blocks ex_RendererCHeader (ex_renderer ex_RendererCHeader))"
    by code_simp
  have ps: "pieces (formatter ex_RendererCHeader)
       (blocks ex_RendererCHeader (ex_renderer ex_RendererCHeader))
     = [''#ifndef EXAMPLE_BP_H'', ''#include '' @ [CHR 0x22] @ ''stdint.h'' @ [CHR 0x22],
        ''#endif'']"
    by code_simp
  show ?thesis
    using ok ps render_string_order [OF ok] by simp
qed

subsection \<open>The registry and \<^verbatim>\<open>render\<close>\<close>

lemma render_each_ok:
  "list_all (render_succeeds os p od) clss \<Longrightarrow>
   render_each os clss p od outs files
     = (Inr (outs @ map (\<lambda>c. out_filepath (new_renderer os c p od)) clss),
        files @ map (\<lambda>c. (out_filepath (new_renderer os c p od), render_content os p od c)) clss)"
proof (induction clss arbitrary: outs files)
  case Nil
  then show ?case by simp
next
  case (Cons c clss)
  then obtain s where s: "render_string c (new_renderer os c p od) = Inr s"
    by (auto simp: render_succeeds_def split: sum.splits)
  from Cons.prems have "list_all (render_succeeds os p od) clss" by simp
  from Cons.IH [OF this] show ?case
    by (simp add: Let_def renderer_render_def s render_content_def)
qed

text \<open>
  C6. For a language tag that the registry does not hold (any tag other than \<^verbatim>\<open>"c"\<close>, \<^verbatim>\<open>"go"\<close>
  and \<^verbatim>\<open>"py"\<close>), \<^verbatim>\<open>render\<close> raises \<^verbatim>\<open>UnsupportedLanguageToRender\<close> and the files are as they
  were: nothing is written and no Renderer class is looked at. For a registered tag whose
  Renderers all produce their text, it writes one file per registered class, in registry order,
  and returns the paths in that order.
\<close>

theorem render_registry:
  "(lang \<notin> {''c'', ''go'', ''py''} \<longrightarrow>
      render os impls p lang od files = (Inl UnsupportedLanguageToRender, files)) \<and>
   (get_renderer_cls impls lang = None \<longrightarrow>
      render os impls p lang od files = (Inl UnsupportedLanguageToRender, files)) \<and>
   (get_renderer_cls impls lang = Some clss \<and> list_all (render_succeeds os p od) clss \<longrightarrow>
      render os impls p lang od files
        = (Inr (map (\<lambda>c. out_filepath (new_renderer os c p od)) clss),
           files @ map (\<lambda>c. (out_filepath (new_renderer os c p od), render_content os p od c))
                     clss))"
  by (auto simp: render_def render_each_ok get_renderer_cls_def get_renderer_registry_def)

theorem render_registry_witness:
  "render ex_os ex_impls ex_unit ''rust'' (Some ''out'') [] = (Inl UnsupportedLanguageToRender, []) \<and>
   get_renderer_cls ex_impls ''c'' = Some [ex_RendererC, ex_RendererCHeader] \<and>
   fst (render ex_os ex_impls ex_unit ''c'' (Some ''out'') [])
     = Inr [''out/example_bp.c'', ''out/example_bp.h''] \<and>
   map fst (snd (render ex_os ex_impls ex_unit ''c'' (Some ''out'') []))
     = [''out/example_bp.c'', ''out/example_bp.h'']"
proof -
  have none: "''rust'' \<notin> {''c'', ''go'', ''py''}" "get_renderer_cls ex_impls ''rust'' = None"
    by (simp_all add: get_renderer_cls_def get_renderer_registry_def)
  have some: "get_renderer_cls ex_impls ''c'' = Some [ex_RendererC, ex_RendererCHeader]"
    by (simp add: get_renderer_cls_def get_renderer_registry_def ex_impls_def)
  have ok: "list_all (render_succeeds ex_os ex_unit (Some ''out'')) [ex_RendererC, ex_RendererCHeader]"
    by code_simp
  have paths: "map (\<lambda>c. out_filepath (new_renderer ex_os c ex_unit (Some ''out'')))
                 [ex_RendererC, ex_RendererCHeader] = [''out/example_bp.c'', ''out/example_bp.h'']"
    by code_simp
  note r = render_registry [of "''rust''" ex_os ex_impls ex_unit "Some ''out''" "[]" "[]"]
  note c = render_registry [of "''c''" ex_os ex_impls ex_unit "Some ''out''" "[]"
                               "[ex_RendererC, ex_RendererCHeader]"]
  have "render ex_os ex_impls ex_unit ''rust'' (Some ''out'') []
          = (Inl UnsupportedLanguageToRender, [])"
    using r none by blast
  moreover have "render ex_os ex_impls ex_unit ''c'' (Some ''out'') []
        = (Inr (map (\<lambda>c. out_filepath (new_renderer ex_os c ex_unit (Some ''out'')))
                  [ex_RendererC, ex_RendererCHeader]),
           [] @ map (\<lambda>c. (out_filepath (new_renderer ex_os c ex_unit (Some ''out'')),
                          render_content ex_os ex_unit (Some ''out'') c))
                     [ex_RendererC, ex_RendererCHeader])"
    using c some ok by blast
  ultimately show ?thesis
    using some paths by (simp add: comp_def)
qed

end
